theory Spec2Isabelle
  imports Complex_Main
begin

section \<open>Errors, responses and transactions\<close>

text \<open>
  A JavaScript exception is a value. The services throw \<^verbatim>\<open>new Error(message)\<close> for
  their business rules, and the store throws errors that carry the SQLSTATE of the
  database in \<^verbatim>\<open>error.parent.code\<close>. A thrown value that is not an instance of
  \<^verbatim>\<open>Error\<close> is kept apart, since \<^verbatim>\<open>UserService.register\<close> tests
  \<^verbatim>\<open>error instanceof Error\<close>. Messages are written in ASCII: the accented letters of
  the Spanish source texts lose their accent.
\<close>

datatype error =
    Error (message: string) (parentCode: "string option")
  | NonError string

text \<open>
  A service method that returns gives back an object with a \<^verbatim>\<open>status\<close>, sometimes a
  \<^verbatim>\<open>message\<close> and sometimes a payload. A call either throws (\<open>Inl\<close>) or returns
  such an object (\<open>Inr\<close>).
\<close>

record 'a response =
  r_status :: nat
  r_message :: "string option"
  r_payload :: "'a option"

text \<open>
  \<^verbatim>\<open>sequelize.transaction()\<close> opens a unit of work: writes that are given the
  transaction act on a working copy of the store; \<^verbatim>\<open>commit\<close> makes the working copy
  the persisted store, \<^verbatim>\<open>rollback\<close> discards it. A transaction that is neither
  committed nor rolled back stays open with its pending writes. The model is of one
  request at a time; opening, committing and rolling back are taken to succeed.
\<close>

record 's database =
  persisted :: 's
  open_transactions :: "'s list"

text \<open>
  What the \<^verbatim>\<open>try\<close> block of a transactional method does with the working copy: it
  throws, it returns while the transaction is still open, or it returns after
  \<^verbatim>\<open>transaction.commit()\<close>.
\<close>

datatype ('s, 'r) body_result =
    Throws error
  | ReturnsOpen 'r 's
  | ReturnsAfterCommit 'r 's

text \<open>
  The shape shared by \<^verbatim>\<open>QuoteService.create\<close>, \<^verbatim>\<open>QuoteService.update\<close> and
  \<^verbatim>\<open>UserService.register\<close>:
  \<^verbatim>\<open>const transaction = await sequelize.transaction();
  try { ... } catch (error) { await transaction.rollback(); ...; throw error; }\<close>
  The function \<open>on_catch\<close> is what the handler does to the error before it rethrows.
\<close>

definition in_transaction ::
  "('s \<Rightarrow> ('s, 'r) body_result) \<Rightarrow> (error \<Rightarrow> error) \<Rightarrow> 's database \<Rightarrow> (error + 'r) \<times> 's database" where
  "in_transaction body on_catch db =
     (case body (persisted db) of
        Throws e \<Rightarrow> (Inl (on_catch e), db)
      | ReturnsOpen r tx \<Rightarrow> (Inr r, db\<lparr>open_transactions := tx # open_transactions db\<rparr>)
      | ReturnsAfterCommit r tx \<Rightarrow> (Inr r, db\<lparr>persisted := tx\<rparr>))"

text \<open>JavaScript truthiness of an optional string: absent and the empty string are falsy.\<close>

definition truthy :: "string option \<Rightarrow> bool" where
  "truthy s = (case s of None \<Rightarrow> False | Some v \<Rightarrow> v \<noteq> [])"

section \<open>Quotes: data\<close>

datatype QuoteStatus = ACCEPTED | PENDING | CANCELED | REVISION | OVERDUE

datatype currency = COP | USD

text \<open>
  Numbers are modelled as rationals: the claims are about exact arithmetic on amounts
  and quantities. Record fields carry a prefix, since several of the source's objects
  share field names (\<^verbatim>\<open>id\<close>, \<^verbatim>\<open>status\<close>, \<^verbatim>\<open>currency\<close>, ...).
\<close>

record quote_item =
  qi_id :: "string option"
  qi_quoteId :: "string option"
  qi_productVariantId :: string
  qi_name :: string
  qi_quantity :: rat
  qi_price :: rat
  qi_totalPrice :: rat

text \<open>\<^verbatim>\<open>CreateQuoteDto\<close> and \<^verbatim>\<open>UpdateQuoteDto\<close> of \<^verbatim>\<open>quote/types.ts\<close>.\<close>

record CreateQuoteDto =
  dto_shopSlug :: "string option"
  dto_shopId :: "string option"
  dto_items :: "quote_item list"
  dto_status :: QuoteStatus
  dto_discountType :: "string option"
  dto_discount :: rat
  dto_shipping :: rat
  dto_requestedBy :: string
  dto_currency :: "currency option"

record UpdateQuoteDto = CreateQuoteDto +
  dto_id :: string

text \<open>
  Of the customer payload the quote service reads \<^verbatim>\<open>customerId\<close>, \<^verbatim>\<open>fullName\<close> and
  \<^verbatim>\<open>personId\<close>; the whole object goes on to the customer service.
\<close>

record customer_data =
  cd_customerId :: "string option"
  cd_fullName :: "string option"
  cd_personId :: "string option"

record shop =
  shop_id :: string
  shop_currency :: currency

text \<open>A row of the quote table, with the fields that \<^verbatim>\<open>build\<close> and \<^verbatim>\<open>update\<close> set.\<close>

record quote =
  q_id :: string
  q_serialNumber :: string
  q_customerId :: "string option"
  q_shopId :: string
  q_status :: QuoteStatus
  q_currency :: "currency option"
  q_discountType :: "string option"
  q_discount :: rat
  q_shipping :: rat
  q_createdBy :: string
  q_requestedBy :: "string option"
  q_createdDate :: nat

text \<open>
  The tables the quote workflow writes. The customer tables (customer, person,
  address) belong to the customer service, which is not part of the sources at hand:
  their state is a type parameter.
\<close>

record 'c store =
  quotes :: "quote list"
  quoteItems :: "quote_item list"
  customers :: 'c

text \<open>
  The collaborators of \<^verbatim>\<open>QuoteService\<close> whose code is not at hand are parameters:
  each acts on the tables it owns, inside the caller's transaction, and may throw.
  \<^item> \<^verbatim>\<open>customerService.create(data, transaction)\<close> returns \<^verbatim>\<open>result.customer.id\<close>;
  \<^item> \<^verbatim>\<open>customerService.update(data, transaction)\<close> returns the customer or null
    (\<open>True\<close> when a customer came back);
  \<^item> \<^verbatim>\<open>quoteItemService.create(item, transaction)\<close>;
  \<^item> \<^verbatim>\<open>quoteItemService.updateItems(items, quoteId, transaction)\<close>;
  \<^item> \<^verbatim>\<open>newQuote.generateSerialNumber()\<close>, which may consult the quote table.
\<close>

record 'c services =
  customerService_create :: "customer_data \<Rightarrow> 'c \<Rightarrow> error + (string \<times> 'c)"
  customerService_update :: "customer_data \<Rightarrow> 'c \<Rightarrow> error + (bool \<times> 'c)"
  quoteItemService_create :: "quote_item \<Rightarrow> quote_item list \<Rightarrow> error + quote_item list"
  quoteItemService_updateItems ::
    "quote_item list \<Rightarrow> string \<Rightarrow> quote_item list \<Rightarrow> error + quote_item list"
  generateSerialNumber :: "quote list \<Rightarrow> error + string"

text \<open>
  What the model cannot compute: the UUID that \<^verbatim>\<open>build\<close> gives the new row and the
  creation date.
\<close>

record build_defaults =
  new_id :: string
  new_createdDate :: nat

text \<open>The summary objects \<^verbatim>\<open>newQuote\<close> and \<^verbatim>\<open>updatedQuote\<close> of the responses.\<close>

record quote_summary =
  s_id :: string
  s_serialNumber :: string
  s_status :: QuoteStatus
  s_customerId :: "string option"
  s_customerName :: "string option"
  s_shopId :: "string option"
  s_createdDate :: nat

section \<open>\<^verbatim>\<open>QuoteService.create\<close>\<close>

text \<open>
  Customer resolution, lines 192-201:
  \<^verbatim>\<open>let customerId = customerData?.customerId ?? null;
  if (customerData?.fullName && !customerData?.customerId) {
    const result = await this.customerService.create(customerData, transaction);
    customerId = result.customer.id;
  } else if (customerData?.personId) {
    await this.customerService.update(customerData, transaction);
  }\<close>
  The result of the update is dropped.
\<close>

definition resolve_customer ::
  "'c services \<Rightarrow> customer_data \<Rightarrow> 'c \<Rightarrow> error + (string option \<times> 'c)" where
  "resolve_customer svc customerData c =
     (if truthy (cd_fullName customerData) \<and> \<not> truthy (cd_customerId customerData) then
        (case customerService_create svc customerData c of
           Inl e \<Rightarrow> Inl e
         | Inr (newCustomerId, c') \<Rightarrow> Inr (Some newCustomerId, c'))
      else if truthy (cd_personId customerData) then
        (case customerService_update svc customerData c of
           Inl e \<Rightarrow> Inl e
         | Inr (_, c') \<Rightarrow> Inr (cd_customerId customerData, c'))
      else Inr (cd_customerId customerData, c))"

text \<open>
  \<^verbatim>\<open>this.quoteModel.build({...})\<close>, lines 220-229, followed by
  \<^verbatim>\<open>generateSerialNumber\<close>.
\<close>

definition build_quote ::
  "build_defaults \<Rightarrow> string option \<Rightarrow> shop \<Rightarrow> 'z CreateQuoteDto_scheme \<Rightarrow> string \<Rightarrow> quote" where
  "build_quote dflt customerId shp quoteData serial =
     \<lparr> q_id = new_id dflt,
       q_serialNumber = serial,
       q_customerId = customerId,
       q_shopId = shop_id shp,
       q_status = dto_status quoteData,
       q_currency = Some (shop_currency shp),
       q_discountType = (if dto_discount quoteData > 0 then dto_discountType quoteData else None),
       q_discount = dto_discount quoteData,
       q_shipping = dto_shipping quoteData,
       q_createdBy = dto_requestedBy quoteData,
       q_requestedBy = None,
       q_createdDate = new_createdDate dflt \<rparr>"

text \<open>
  The error of the store for a violated uniqueness constraint: Sequelize's
  \<^verbatim>\<open>UniqueConstraintError\<close>, whose \<^verbatim>\<open>parent.code\<close> is the SQLSTATE 23505.
\<close>

definition uniqueViolation :: error where
  "uniqueViolation = Error ''Validation error'' (Some ''23505'')"

text \<open>
  Modelled from the spec: the uniqueness constraint of the quote table, declared in
  \<^verbatim>\<open>quote/model.ts\<close>, which is not at hand. The data model calls the serial number
  "unique, generated at creation", and a collision is to be "rejected, never silently
  overwritten": \<^verbatim>\<open>newQuote.save({ transaction })\<close> inserts the row unless a row
  with its serial number exists.
\<close>

definition save :: "quote \<Rightarrow> quote list \<Rightarrow> error + quote list" where
  "save newQuote qs =
     (if q_serialNumber newQuote \<in> set (map q_serialNumber qs) then Inl uniqueViolation
      else Inr (qs @ [newQuote]))"

text \<open>
  The loop of lines 233-243: every item is handed to the item service with its
  \<^verbatim>\<open>id\<close> cleared and the new quote's id; the first failure ends the loop.
\<close>

fun create_items ::
  "'c services \<Rightarrow> string \<Rightarrow> quote_item list \<Rightarrow> quote_item list \<Rightarrow> error + quote_item list" where
  "create_items svc quoteId [] tbl = Inr tbl"
| "create_items svc quoteId (item # rest) tbl =
     (case quoteItemService_create svc (item\<lparr>qi_id := None, qi_quoteId := Some quoteId\<rparr>) tbl of
        Inl e \<Rightarrow> Inl e
      | Inr tbl' \<Rightarrow> create_items svc quoteId rest tbl')"

text \<open>
  The \<^verbatim>\<open>try\<close> block of \<^verbatim>\<open>create\<close>, lines 185-258. \<^verbatim>\<open>ShopModel.findOne\<close> is
  the parameter \<open>findShop\<close>: it reads outside the transaction, and what it does with an
  absent slug is the library's business.
\<close>

definition create_body ::
  "'c services \<Rightarrow> build_defaults \<Rightarrow> (string option \<Rightarrow> shop option) \<Rightarrow>
   'z CreateQuoteDto_scheme \<Rightarrow> customer_data \<Rightarrow> 'c store \<Rightarrow>
   ('c store, quote_summary response) body_result" where
  "create_body svc dflt findShop quoteData customerData tx =
     (if length (dto_items quoteData) = 0 then
        Throws (Error ''Es necesario al menos 1 item para crear una cotizacion'' None)
      else
        case resolve_customer svc customerData (customers tx) of
          Inl e \<Rightarrow> Throws e
        | Inr (customerId, c1) \<Rightarrow>
           (case findShop (dto_shopSlug quoteData) of
              None \<Rightarrow>
                ReturnsOpen
                  \<lparr> r_status = 400, r_message = Some ''Parece que la tienda no existe!'',
                    r_payload = None \<rparr>
                  (tx\<lparr>customers := c1\<rparr>)
            | Some shp \<Rightarrow>
               (case generateSerialNumber svc (quotes tx) of
                  Inl e \<Rightarrow> Throws e
                | Inr serial \<Rightarrow>
                   (let newQuote = build_quote dflt customerId shp quoteData serial in
                    case save newQuote (quotes tx) of
                      Inl e \<Rightarrow> Throws e
                    | Inr qs \<Rightarrow>
                       (case create_items svc (q_id newQuote) (dto_items quoteData) (quoteItems tx) of
                          Inl e \<Rightarrow> Throws e
                        | Inr its \<Rightarrow>
                            ReturnsAfterCommit
                              \<lparr> r_status = 201, r_message = None,
                                r_payload = Some
                                  \<lparr> s_id = q_id newQuote,
                                    s_serialNumber = q_serialNumber newQuote,
                                    s_status = dto_status quoteData,
                                    s_customerId = customerId,
                                    s_customerName = cd_fullName customerData,
                                    s_shopId = Some (shop_id shp),
                                    s_createdDate = q_createdDate newQuote \<rparr> \<rparr>
                              \<lparr> quotes = qs, quoteItems = its, customers = c1 \<rparr>)))))"

text \<open>
  \<^verbatim>\<open>create\<close>: the handler rolls back, logs and rethrows the error as it is
  (lines 259-263).
\<close>

definition create ::
  "'c services \<Rightarrow> build_defaults \<Rightarrow> (string option \<Rightarrow> shop option) \<Rightarrow>
   'z CreateQuoteDto_scheme \<Rightarrow> customer_data \<Rightarrow> 'c store database \<Rightarrow>
   (error + quote_summary response) \<times> 'c store database" where
  "create svc dflt findShop quoteData customerData db =
     in_transaction (create_body svc dflt findShop quoteData customerData) (\<lambda>e. e) db"

section \<open>\<^verbatim>\<open>QuoteService.update\<close>\<close>

text \<open>Lines 275-284: the customer is updated when a person id is given, and must exist.\<close>

definition update_customer :: "'c services \<Rightarrow> customer_data \<Rightarrow> 'c \<Rightarrow> error + 'c" where
  "update_customer svc customerData c =
     (if truthy (cd_personId customerData) then
        (case customerService_update svc customerData c of
           Inl e \<Rightarrow> Inl e
         | Inr (customerInfo, c') \<Rightarrow>
             if \<not> customerInfo then Inl (Error ''Cliente no encontrado'' None) else Inr c')
      else Inr c)"

text \<open>\<^verbatim>\<open>this.quoteModel.findByPk(quoteData.id, { transaction })\<close>.\<close>

definition findByPk :: "string \<Rightarrow> quote list \<Rightarrow> quote option" where
  "findByPk pk qs = List.find (\<lambda>q. q_id q = pk) qs"

text \<open>
  The values of \<^verbatim>\<open>quoteToUpdate.update({...}, { transaction })\<close>, lines 293-305.
  A value that the request leaves out is \<^verbatim>\<open>undefined\<close>: Sequelize's instance
  update drops it and the stored column stays. That is so for the customer id, the
  currency and, with a positive discount, the discount type; without a positive
  discount the discount type is the literal \<^verbatim>\<open>null\<close> and is stored as such.
  \<^verbatim>\<open>discount || 0\<close> is the discount itself, zero being the one falsy number a
  rational can be.
\<close>

definition assigned :: "'a option \<Rightarrow> 'a option \<Rightarrow> 'a option" where
  "assigned v stored = (case v of None \<Rightarrow> stored | Some x \<Rightarrow> Some x)"

definition updated_quote :: "'z UpdateQuoteDto_scheme \<Rightarrow> customer_data \<Rightarrow> quote \<Rightarrow> quote" where
  "updated_quote quoteData customerData q =
     q\<lparr> q_customerId := assigned (cd_customerId customerData) (q_customerId q),
       q_status := dto_status quoteData,
       q_currency := assigned (dto_currency quoteData) (q_currency q),
       q_discountType :=
         (if dto_discount quoteData > 0
          then assigned (dto_discountType quoteData) (q_discountType q) else None),
       q_discount := (if dto_discount quoteData = 0 then 0 else dto_discount quoteData),
       q_shipping := dto_shipping quoteData,
       q_requestedBy := Some (dto_requestedBy quoteData) \<rparr>"

text \<open>The UPDATE statement acts on the rows with the primary key of the instance.\<close>

definition instance_update ::
  "'z UpdateQuoteDto_scheme \<Rightarrow> customer_data \<Rightarrow> quote \<Rightarrow> quote list \<Rightarrow> quote list" where
  "instance_update quoteData customerData quoteToUpdate qs =
     map (\<lambda>q. if q_id q = q_id quoteToUpdate then updated_quote quoteData customerData q else q) qs"

definition update_body ::
  "'c services \<Rightarrow> 'z UpdateQuoteDto_scheme \<Rightarrow> customer_data \<Rightarrow> 'c store \<Rightarrow>
   ('c store, quote_summary response) body_result" where
  "update_body svc quoteData customerData tx =
     (case update_customer svc customerData (customers tx) of
        Inl e \<Rightarrow> Throws e
      | Inr c1 \<Rightarrow>
         (case findByPk (dto_id quoteData) (quotes tx) of
            None \<Rightarrow> Throws (Error ''Cotizacion no encontrada'' None)
          | Some quoteToUpdate \<Rightarrow>
             (let qs = instance_update quoteData customerData quoteToUpdate (quotes tx) in
              if length (dto_items quoteData) > 0 then
                (case quoteItemService_updateItems svc (dto_items quoteData) (dto_id quoteData)
                        (quoteItems tx) of
                   Inl e \<Rightarrow> Throws e
                 | Inr its \<Rightarrow>
                     ReturnsAfterCommit
                       \<lparr> r_status = 200, r_message = None,
                         r_payload = Some
                           \<lparr> s_id = dto_id quoteData,
                             s_serialNumber = q_serialNumber quoteToUpdate,
                             s_status = dto_status quoteData,
                             s_customerId = cd_customerId customerData,
                             s_customerName = cd_fullName customerData,
                             s_shopId = dto_shopId quoteData,
                             s_createdDate = q_createdDate quoteToUpdate \<rparr> \<rparr>
                       \<lparr> quotes = qs, quoteItems = its, customers = c1 \<rparr>)
              else Throws (Error ''La cotizacion debe tener al menos 1 item'' None))))"

definition update ::
  "'c services \<Rightarrow> 'z UpdateQuoteDto_scheme \<Rightarrow> customer_data \<Rightarrow> 'c store database \<Rightarrow>
   (error + quote_summary response) \<times> 'c store database" where
  "update svc quoteData customerData db =
     in_transaction (update_body svc quoteData customerData) (\<lambda>e. e) db"

text \<open>
  The invariant of the data model on a quote row: a discount type is stored only
  with a positive discount.
\<close>

definition discount_type_rule :: "quote \<Rightarrow> bool" where
  "discount_type_rule q = (q_discountType q = None \<or> 0 < q_discount q)"

section \<open>Billing items and stock\<close>

datatype StockOperation = SUBTRACT | ADD

text \<open>
  \<^verbatim>\<open>CreateBillingItemDto\<close>: a line item of a billing. \<^verbatim>\<open>stockId\<close> names the stock
  the item is sold from; \<^verbatim>\<open>cancel\<close> overrides it with the stock it is given.
\<close>

record CreateBillingItemDto =
  bi_billingId :: string
  bi_productVariantId :: string
  bi_stockId :: string
  bi_name :: string
  bi_quantity :: rat
  bi_price :: rat
  bi_totalPrice :: rat
  bi_currency :: string
  bi_createdDate :: nat

record stock_item =
  si_quantity :: rat
  si_price :: rat
  si_currency :: string

text \<open>
  The tables the billing-item service writes: the line items, and the stock items,
  one for a product variant and a stock.
\<close>

record billing_store =
  billingItems :: "CreateBillingItemDto list"
  stockItems :: "string \<times> string \<rightharpoonup> stock_item"

definition signed :: "StockOperation \<Rightarrow> rat \<Rightarrow> rat" where
  "signed operation q = (case operation of SUBTRACT \<Rightarrow> - q | ADD \<Rightarrow> q)"

text \<open>
  Modelled from the spec: \<^verbatim>\<open>StockItemService.updateQuantity\<close> of
  \<^verbatim>\<open>stock-item/service.ts\<close>, which is not at hand. The inventory ledger "looks up the
  stock item row for (variant, stock); if absent, signals a NotFound failure", then
  "applies the signed quantity (negative for a sale/deduction, positive for a
  cancellation/restock) and writes the new quantity inside the caller-supplied unit of
  work".
\<close>

definition updateQuantity ::
  "CreateBillingItemDto \<Rightarrow> StockOperation \<Rightarrow> (string \<times> string \<rightharpoonup> stock_item) \<Rightarrow>
   error + (string \<times> string \<rightharpoonup> stock_item)" where
  "updateQuantity d operation stk =
     (case stk (bi_productVariantId d, bi_stockId d) of
        None \<Rightarrow> Inl (Error ''NotFound'' None)
      | Some si \<Rightarrow>
          Inr (stk((bi_productVariantId d, bi_stockId d) \<mapsto>
                 si\<lparr>si_quantity := si_quantity si + signed operation (bi_quantity d)\<rparr>)))"

text \<open>
  \<^verbatim>\<open>BillingItemService.create\<close>, lines 107-133 of the billing-item service: the row is
  inserted, and the stock is reduced when \<^verbatim>\<open>deductFromStock\<close> is set. The method
  works inside the caller's transaction; its handler logs and rethrows. The insert
  itself is taken to succeed.
\<close>

definition billingItem_create ::
  "CreateBillingItemDto \<Rightarrow> bool \<Rightarrow> billing_store \<Rightarrow> error + (CreateBillingItemDto \<times> billing_store)" where
  "billingItem_create billingItemData deductFromStock tx =
     (let newBillingItem = billingItemData;
          tx1 = tx\<lparr>billingItems := billingItems tx @ [newBillingItem]\<rparr>
      in if \<not> deductFromStock then Inr (newBillingItem, tx1)
         else
           case updateQuantity billingItemData SUBTRACT (stockItems tx1) of
             Inl e \<Rightarrow> Inl e
           | Inr stk \<Rightarrow> Inr (newBillingItem, tx1\<lparr>stockItems := stk\<rparr>))"

text \<open>\<^verbatim>\<open>BillingItemService.cancel\<close>, lines 135-154.\<close>

definition billingItem_cancel ::
  "CreateBillingItemDto \<Rightarrow> string \<Rightarrow> billing_store \<Rightarrow> error + billing_store" where
  "billingItem_cancel billingItemData stockId tx =
     (case updateQuantity (billingItemData\<lparr>bi_stockId := stockId\<rparr>) ADD (stockItems tx) of
        Inl e \<Rightarrow> Inl e
      | Inr stk \<Rightarrow> Inr (tx\<lparr>stockItems := stk\<rparr>))"

section \<open>Monthly sales\<close>

text \<open>
  The columns of a billing that \<^verbatim>\<open>getMonthlySales\<close> reads. The status is the string
  of the enumeration; \<^verbatim>\<open>BillingStatus.PAID\<close> is \<open>''PAID''\<close>.
\<close>

record billing =
  b_id :: string
  b_status :: string
  b_discountType :: "string option"
  b_discount :: rat
  b_subtotal :: rat
  b_shipping :: rat
  b_createdDate :: nat

text \<open>
  The SQL expression under \<^verbatim>\<open>SUM\<close>, for one joined row; \<open>None\<close> is SQL's NULL,
  which \<^verbatim>\<open>NULLIF("subtotal", 0)\<close> yields, and the division passes on.
  \<^verbatim>\<open>CASE
    WHEN "discountType" = 'PERCENTAGE' THEN "totalPrice" * (1 - "discount" / 100)
    WHEN "discountType" = 'FIXED'
      THEN "totalPrice" * (1 - "discount" / NULLIF("subtotal", 0))
    ELSE "totalPrice"
  END\<close>
\<close>

definition sale_term :: "billing \<Rightarrow> CreateBillingItemDto \<Rightarrow> rat option" where
  "sale_term b i =
     (if b_discountType b = Some ''PERCENTAGE'' then
        Some (bi_totalPrice i * (1 - b_discount b / 100))
      else if b_discountType b = Some ''FIXED'' then
        (if b_subtotal b = 0 then None
         else Some (bi_totalPrice i * (1 - b_discount b / b_subtotal b)))
      else Some (bi_totalPrice i))"

text \<open>SQL's \<^verbatim>\<open>SUM\<close>: NULLs are skipped, and the sum of no value at all is NULL.\<close>

fun sql_sum :: "rat option list \<Rightarrow> rat option" where
  "sql_sum [] = None"
| "sql_sum (None # xs) = sql_sum xs"
| "sql_sum (Some x # xs) = (case sql_sum xs of None \<Rightarrow> Some x | Some s \<Rightarrow> Some (x + s))"

text \<open>
  The rows the query joins: the billings that are paid and were created within the
  year, each with its line items whose product variant is not deleted
  (\<^verbatim>\<open>where: { deletedDate: null }\<close> on the required include). The set of deleted
  variants and the bounds of the year are parameters.
\<close>

definition joined_rows ::
  "nat \<Rightarrow> nat \<Rightarrow> (string \<Rightarrow> bool) \<Rightarrow> billing list \<Rightarrow> CreateBillingItemDto list \<Rightarrow>
   (billing \<times> CreateBillingItemDto) list" where
  "joined_rows startOfYear endOfYear variantDeleted billings its =
     concat (map (\<lambda>b.
        if startOfYear \<le> b_createdDate b \<and> b_createdDate b \<le> endOfYear \<and> b_status b = ''PAID''
        then map (Pair b)
               (filter (\<lambda>i. bi_billingId i = b_id b \<and> \<not> variantDeleted (bi_productVariantId i)) its)
        else []) billings)"

text \<open>
  The key of a group: \<^verbatim>\<open>DATE_PART('month', "billingItems"."createdDate")\<close>, a
  parameter of the model, and the currency of the line item.
\<close>

definition group_key :: "(nat \<Rightarrow> nat) \<Rightarrow> billing \<times> CreateBillingItemDto \<Rightarrow> nat \<times> string" where
  "group_key monthOf row = (monthOf (bi_createdDate (snd row)), bi_currency (snd row))"

text \<open>The value of \<^verbatim>\<open>totalSales\<close> for a group of joined rows.\<close>

definition totalSales :: "(billing \<times> CreateBillingItemDto) list \<Rightarrow> rat option" where
  "totalSales rows = sql_sum (map (\<lambda>row. sale_term (fst row) (snd row)) rows)"

record MonthlySalesData =
  ms_month :: nat
  ms_currency :: string
  ms_totalSales :: "rat option"

text \<open>The result of the query: one row for each group, by ascending month.\<close>

definition rawSales ::
  "(nat \<Rightarrow> nat) \<Rightarrow> (billing \<times> CreateBillingItemDto) list \<Rightarrow> MonthlySalesData list" where
  "rawSales monthOf rows =
     map (\<lambda>k. \<lparr> ms_month = fst k, ms_currency = snd k,
                ms_totalSales = totalSales (filter (\<lambda>row. group_key monthOf row = k) rows) \<rparr>)
       (sort_key fst (remdups (map (group_key monthOf) rows)))"

text \<open>\<^verbatim>\<open>Number(totalSales)\<close>: the number, and 0 for \<^verbatim>\<open>null\<close>.\<close>

definition Number :: "rat option \<Rightarrow> rat" where
  "Number v = (case v of None \<Rightarrow> 0 | Some x \<Rightarrow> x)"

text \<open>
  The \<^verbatim>\<open>reduce\<close> of lines 224-241: an entry for each month, in order of first
  appearance, with a number for each currency seen.
\<close>

fun set_month_value ::
  "nat \<Rightarrow> string \<Rightarrow> rat \<Rightarrow> (nat \<times> (string \<rightharpoonup> rat)) list \<Rightarrow> (nat \<times> (string \<rightharpoonup> rat)) list" where
  "set_month_value m c v [] = [(m, [c \<mapsto> v])]"
| "set_month_value m c v (entry # acc) =
     (if fst entry = m then (m, (snd entry)(c \<mapsto> v)) # acc
      else entry # set_month_value m c v acc)"

definition formattedSales :: "MonthlySalesData list \<Rightarrow> (nat \<times> (string \<rightharpoonup> rat)) list" where
  "formattedSales sales =
     foldl (\<lambda>acc item. set_month_value (ms_month item) (ms_currency item)
                          (Number (ms_totalSales item)) acc) [] sales"

record sales_with_month_name =
  sm_month :: "string option"
  sm_COP :: rat
  sm_USD :: rat

definition month_name :: "string list \<Rightarrow> nat \<Rightarrow> string option" where
  "month_name monthNames m =
     (if 1 \<le> m \<and> m - 1 < length monthNames then Some (monthNames ! (m - 1)) else None)"

definition getMonthlySales ::
  "string list \<Rightarrow> nat \<Rightarrow> nat \<Rightarrow> (nat \<Rightarrow> nat) \<Rightarrow> (string \<Rightarrow> bool) \<Rightarrow>
   billing list \<Rightarrow> CreateBillingItemDto list \<Rightarrow> sales_with_month_name list" where
  "getMonthlySales monthNames startOfYear endOfYear monthOf variantDeleted billings its =
     map (\<lambda>item. \<lparr> sm_month = month_name monthNames (fst item),
                   sm_COP = (case snd item ''COP'' of None \<Rightarrow> 0 | Some v \<Rightarrow> v),
                   sm_USD = (case snd item ''USD'' of None \<Rightarrow> 0 | Some v \<Rightarrow> v) \<rparr>)
       (formattedSales
          (rawSales monthOf (joined_rows startOfYear endOfYear variantDeleted billings its)))"

text \<open>
  The total of the spec, section 4.3, in the spec's words, to compare the query with:
  \<open>base\<close> is the sum of the line totals; a percentage discount leaves
  \<open>base * (1 - discount / 100)\<close>, a fixed discount \<open>base * (1 - discount / base)\<close>, or
  \<open>base\<close> when \<open>base\<close> is zero, and any other discount type leaves \<open>base\<close>; the
  total adds the shipping.
\<close>

definition spec_base :: "CreateBillingItemDto list \<Rightarrow> rat" where
  "spec_base its = sum_list (map bi_totalPrice its)"

definition spec_discounted :: "rat \<Rightarrow> string option \<Rightarrow> rat \<Rightarrow> rat" where
  "spec_discounted base discountType discount =
     (if discountType = Some ''PERCENTAGE'' then base * (1 - discount / 100)
      else if discountType = Some ''FIXED'' then
        (if base = 0 then base else base * (1 - discount / base))
      else base)"

definition spec_total :: "rat \<Rightarrow> string option \<Rightarrow> rat \<Rightarrow> rat \<Rightarrow> rat" where
  "spec_total base discountType discount shipping =
     spec_discounted base discountType discount + shipping"

section \<open>Users\<close>

record CreateUserDto =
  u_fullName :: string
  u_dni :: string
  u_roleId :: string
  u_shopId :: string
  u_email :: string
  u_password :: string

record userRegistered =
  ur_id :: string
  ur_email :: string
  ur_roleId :: string
  ur_shopId :: string
  ur_roleName :: string
  ur_personId :: string
  ur_fullName :: string
  ur_dni :: string

text \<open>
  The model classes of the user service are not at hand; their calls are parameters
  over the state \<open>'u\<close> of the user tables. Each may throw.
  \<^item> \<^verbatim>\<open>personModel.create({ fullName, dni }, { transaction })\<close> and
    \<^verbatim>\<open>userModel.create({...}, { transaction })\<close> return the new row's id, or null;
  \<^item> \<^verbatim>\<open>roleModel.findByPk(id)\<close> returns the name of the role, or null;
  \<^item> \<^verbatim>\<open>userModel.findByPk(userId)\<close> tells whether the user exists;
  \<^item> \<^verbatim>\<open>user.setExtraPermissions(extraPermissions)\<close> writes without a transaction:
    it leaves a state behind also when it throws.
\<close>

record 'u user_models =
  personModel_create :: "string \<Rightarrow> string \<Rightarrow> 'u \<Rightarrow> error + (string option \<times> 'u)"
  userModel_create :: "CreateUserDto \<Rightarrow> string \<Rightarrow> 'u \<Rightarrow> error + (string option \<times> 'u)"
  roleModel_findByPk :: "string \<Rightarrow> error + string option"
  userModel_findByPk :: "string \<Rightarrow> 'u \<Rightarrow> error + bool"
  setExtraPermissions :: "string \<Rightarrow> string list \<Rightarrow> 'u \<Rightarrow> error option \<times> 'u"

text \<open>\<^verbatim>\<open>getRoleName\<close>, lines 267-279: the handler logs and rethrows.\<close>

definition getRoleName :: "'u user_models \<Rightarrow> string \<Rightarrow> error + string" where
  "getRoleName models roleId =
     (case roleModel_findByPk models roleId of
        Inl e \<Rightarrow> Inl e
      | Inr None \<Rightarrow> Inl (Error ''Rol no encontrado'' None)
      | Inr (Some name) \<Rightarrow> Inr name)"

text \<open>The \<^verbatim>\<open>try\<close> block of \<^verbatim>\<open>register\<close>, lines 82-113.\<close>

definition register_body ::
  "'u user_models \<Rightarrow> CreateUserDto \<Rightarrow> 'u \<Rightarrow> ('u, userRegistered response) body_result" where
  "register_body models userData tx =
     (case personModel_create models (u_fullName userData) (u_dni userData) tx of
        Inl e \<Rightarrow> Throws e
      | Inr (None, tx1) \<Rightarrow>
          ReturnsOpen \<lparr> r_status = 500, r_message = Some ''Error creando usuario'',
                        r_payload = None \<rparr> tx1
      | Inr (Some personId, tx1) \<Rightarrow>
         (case userModel_create models userData personId tx1 of
            Inl e \<Rightarrow> Throws e
          | Inr (None, tx2) \<Rightarrow>
              ReturnsOpen \<lparr> r_status = 500, r_message = Some ''Error creando usuario'',
                            r_payload = None \<rparr> tx2
          | Inr (Some userId, tx2) \<Rightarrow>
             (case getRoleName models (u_roleId userData) of
                Inl e \<Rightarrow> Throws e
              | Inr roleName \<Rightarrow>
                  ReturnsAfterCommit
                    \<lparr> r_status = 201, r_message = Some ''Usuario registrado con exito'',
                      r_payload = Some
                        \<lparr> ur_id = userId, ur_email = u_email userData,
                          ur_roleId = u_roleId userData, ur_shopId = u_shopId userData,
                          ur_roleName = roleName, ur_personId = personId,
                          ur_fullName = u_fullName userData, ur_dni = u_dni userData \<rparr> \<rparr>
                    tx2)))"

text \<open>
  The handler of \<^verbatim>\<open>register\<close>, lines 114-125: after the rollback, an \<^verbatim>\<open>Error\<close>
  whose \<^verbatim>\<open>parent.code\<close> is 23505 gets a new message; the same error object is
  thrown on.
\<close>

definition register_on_catch :: "error \<Rightarrow> error" where
  "register_on_catch e =
     (case e of
        Error m code \<Rightarrow>
          if code = Some ''23505''
          then Error ''Ya existe un usuario con este email o numero de documento'' code
          else e
      | NonError v \<Rightarrow> e)"

definition register ::
  "'u user_models \<Rightarrow> CreateUserDto \<Rightarrow> 'u database \<Rightarrow>
   (error + userRegistered response) \<times> 'u database" where
  "register models userData db = in_transaction (register_body models userData) register_on_catch db"

text \<open>
  \<^verbatim>\<open>setPermissions\<close>, lines 202-225: no transaction, and the handler returns a
  response where the others rethrow.
\<close>

definition setPermissions ::
  "'u user_models \<Rightarrow> string \<Rightarrow> string list \<Rightarrow> 'u \<Rightarrow> (error + unit response) \<times> 'u" where
  "setPermissions models userId extraPermissions u =
     (case userModel_findByPk models userId u of
        Inl e \<Rightarrow>
          (Inr \<lparr> r_status = 500, r_message = Some ''Error asignando permisos de usuario'',
                 r_payload = None \<rparr>, u)
      | Inr False \<Rightarrow>
          (Inr \<lparr> r_status = 404, r_message = Some ''Usuario no encontrado'', r_payload = None \<rparr>, u)
      | Inr True \<Rightarrow>
         (case setExtraPermissions models userId extraPermissions u of
            (Some e, u') \<Rightarrow>
              (Inr \<lparr> r_status = 500, r_message = Some ''Error asignando permisos de usuario'',
                     r_payload = None \<rparr>, u')
          | (None, u') \<Rightarrow>
              (Inr \<lparr> r_status = 200,
                     r_message = Some (if length extraPermissions = 0
                                       then ''Permisos eliminados con exito''
                                       else ''Permisos actualizados con exito''),
                     r_payload = None \<rparr>, u')))"

section \<open>Request handlers\<close>

text \<open>
  What an Express handler leaves behind: a response that was sent, an error handed to
  \<^verbatim>\<open>next\<close> for the error middleware, or nothing at all.
\<close>

datatype 'a http_result = Sent nat 'a | Forwarded error | NoResponse

text \<open>
  \<^verbatim>\<open>ProductCategoryController.create\<close>, lines 12-28 of the controller: the handlers of
  the controller all end in \<^verbatim>\<open>catch (error) { next(error); }\<close>. The outcome of the
  service call is the argument.
\<close>

definition controller_create :: "error + 'a \<Rightarrow> ('a \<times> string) http_result" where
  "controller_create serviceResult =
     (case serviceResult of
        Inr newProductCategory \<Rightarrow>
          Sent 201 (newProductCategory, ''Categoria de producto creada con exito'')
      | Inl e \<Rightarrow> Forwarded e)"

text \<open>
  The handler of \<^verbatim>\<open>GET /api/v1/ping\<close> in the router:
  \<^verbatim>\<open>try { await sequelize.authenticate(); res.status(200).send({...}); }
  catch (error) { console.error(error); }\<close>
  The argument is the error of \<^verbatim>\<open>authenticate\<close>, if it throws one.
\<close>

definition ping :: "error option \<Rightarrow> (string \<times> string) http_result" where
  "ping authenticate =
     (case authenticate of
        None \<Rightarrow> Sent 200 (''Server status is OK!'', ''Database connection is OK!'')
      | Some e \<Rightarrow> NoResponse)"

section \<open>A concrete instance\<close>

text \<open>
  Modelled from the spec: an instance of the collaborators of the quote service, to
  run the model on concrete requests. The customer tables are the list of the ids of
  persons who are customers. After section 6, the customer service's \<open>create\<close> returns the new
  customer with its id, and its \<open>update\<close> the customer or null; after section 4.2, the
  line-item store's \<open>create\<close> persists one line item, and \<open>updateItems\<close> removes the
  items of the document and inserts the given list.
\<close>

definition specServices :: "string list services" where
  "specServices =
     \<lparr> customerService_create = (\<lambda>d c. Inr (''customer-new'', c @ [''person-new''])),
       customerService_update = (\<lambda>d c. Inr (cd_personId d \<in> Some ` set c, c)),
       quoteItemService_create = (\<lambda>item tbl. Inr (tbl @ [item])),
       quoteItemService_updateItems = (\<lambda>its quoteId tbl.
          Inr (filter (\<lambda>i. qi_quoteId i \<noteq> Some quoteId) tbl
               @ map (\<lambda>i. i\<lparr>qi_quoteId := Some quoteId\<rparr>) its)),
       generateSerialNumber = (\<lambda>qs. Inr ''CTZ-0002'') \<rparr>"

definition exampleItem :: quote_item where
  "exampleItem =
     \<lparr> qi_id = None, qi_quoteId = None, qi_productVariantId = ''variant-A'',
       qi_name = ''A'', qi_quantity = 2, qi_price = 100, qi_totalPrice = 200 \<rparr>"

definition exampleQuoteData :: CreateQuoteDto where
  "exampleQuoteData =
     \<lparr> dto_shopSlug = Some ''centro'', dto_shopId = None, dto_items = [exampleItem],
       dto_status = PENDING, dto_discountType = Some ''PERCENTAGE'', dto_discount = 10,
       dto_shipping = 5, dto_requestedBy = ''user-1'', dto_currency = None \<rparr>"

definition exampleUpdateData :: UpdateQuoteDto where
  "exampleUpdateData =
     \<lparr> dto_shopSlug = Some ''centro'', dto_shopId = Some ''shop-1'', dto_items = [exampleItem],
       dto_status = ACCEPTED, dto_discountType = Some ''FIXED'', dto_discount = 0,
       dto_shipping = 5, dto_requestedBy = ''user-1'', dto_currency = Some COP,
       dto_id = ''quote-1'' \<rparr>"

definition noCustomer :: customer_data where
  "noCustomer = \<lparr> cd_customerId = None, cd_fullName = None, cd_personId = None \<rparr>"

definition newCustomer :: customer_data where
  "newCustomer = \<lparr> cd_customerId = None, cd_fullName = Some ''Ana'', cd_personId = None \<rparr>"

definition exampleShops :: "string option \<Rightarrow> shop option" where
  "exampleShops slug =
     (if slug = Some ''centro'' then Some \<lparr> shop_id = ''shop-1'', shop_currency = COP \<rparr>
      else None)"

definition exampleDefaults :: build_defaults where
  "exampleDefaults = \<lparr> new_id = ''quote-2'', new_createdDate = 20250603 \<rparr>"

definition exampleQuote :: quote where
  "exampleQuote =
     \<lparr> q_id = ''quote-1'', q_serialNumber = ''CTZ-0001'', q_customerId = None,
       q_shopId = ''shop-1'', q_status = PENDING, q_currency = Some COP,
       q_discountType = Some ''PERCENTAGE'', q_discount = 10, q_shipping = 0,
       q_createdBy = ''user-1'', q_requestedBy = None, q_createdDate = 20250601 \<rparr>"

definition exampleDb :: "string list store database" where
  "exampleDb =
     \<lparr> persisted =
         \<lparr> quotes = [exampleQuote],
           quoteItems = [exampleItem\<lparr>qi_quoteId := Some ''quote-1''\<rparr>],
           customers = [''person-1''] \<rparr>,
       open_transactions = [] \<rparr>"

definition knownPerson :: customer_data where
  "knownPerson = \<lparr> cd_customerId = None, cd_fullName = None, cd_personId = Some ''person-1'' \<rparr>"

text \<open>The same collaborators with a serial-number generator that repeats a number in use.\<close>

definition collidingServices :: "string list services" where
  "collidingServices = specServices\<lparr>generateSerialNumber := (\<lambda>qs. Inr ''CTZ-0001'')\<rparr>"

text \<open>
  An instance of the model classes of the user service: the user tables are the list
  of the document numbers in use, and a person with a number in use is refused by the
  store.
\<close>

definition exampleUserModels :: "string list user_models" where
  "exampleUserModels =
     \<lparr> personModel_create = (\<lambda>fullName dni u.
          if dni \<in> set u then Inl uniqueViolation else Inr (Some (''person-'' @ dni), u @ [dni])),
       userModel_create = (\<lambda>d personId u. Inr (Some (''user-'' @ u_email d), u)),
       roleModel_findByPk = (\<lambda>roleId. Inr (if roleId = ''role-1'' then Some ''cajero'' else None)),
       userModel_findByPk = (\<lambda>userId u.
          if userId = [] then Inl (Error ''invalid input syntax for type uuid'' (Some ''22P02''))
          else Inr (userId = ''user-1'')),
       setExtraPermissions = (\<lambda>userId extraPermissions u. (None, u)) \<rparr>"

definition exampleUser :: CreateUserDto where
  "exampleUser =
     \<lparr> u_fullName = ''Ana'', u_dni = ''1020'', u_roleId = ''role-1'', u_shopId = ''shop-1'',
       u_email = ''ana@example.com'', u_password = ''secret'' \<rparr>"

definition exampleUserDb :: "string list database" where
  "exampleUserDb = \<lparr> persisted = [''1020''], open_transactions = [] \<rparr>"

text \<open>A billing of one line item, and the stock it is sold from.\<close>

definition exampleBillingItem :: CreateBillingItemDto where
  "exampleBillingItem =
     \<lparr> bi_billingId = ''billing-1'', bi_productVariantId = ''variant-A'', bi_stockId = ''stock-1'',
       bi_name = ''A'', bi_quantity = 2, bi_price = 100, bi_totalPrice = 200,
       bi_currency = ''COP'', bi_createdDate = 6 \<rparr>"

definition exampleBillingItemB :: CreateBillingItemDto where
  "exampleBillingItemB =
     \<lparr> bi_billingId = ''billing-1'', bi_productVariantId = ''variant-B'', bi_stockId = ''stock-1'',
       bi_name = ''B'', bi_quantity = 1, bi_price = 100, bi_totalPrice = 100,
       bi_currency = ''COP'', bi_createdDate = 6 \<rparr>"

definition exampleBillingStore :: billing_store where
  "exampleBillingStore =
     \<lparr> billingItems = [],
       stockItems = [(''variant-A'', ''stock-1'') \<mapsto>
                       \<lparr> si_quantity = 7, si_price = 100, si_currency = ''COP'' \<rparr>] \<rparr>"

definition exampleBillingStoreSold :: billing_store where
  "exampleBillingStoreSold =
     \<lparr> billingItems = [exampleBillingItem],
       stockItems = [(''variant-A'', ''stock-1'') \<mapsto>
                       \<lparr> si_quantity = 5, si_price = 100, si_currency = ''COP'' \<rparr>] \<rparr>"

definition exampleBilling :: billing where
  "exampleBilling =
     \<lparr> b_id = ''billing-1'', b_status = ''PAID'', b_discountType = Some ''PERCENTAGE'',
       b_discount = 10, b_subtotal = 200, b_shipping = 5, b_createdDate = 6 \<rparr>"

text \<open>
  For the examples a date is the number of its month, and the year runs from 1 to 12.
\<close>

definition exampleMonthNames :: "string list" where
  "exampleMonthNames =
     [''Enero'', ''Febrero'', ''Marzo'', ''Abril'', ''Mayo'', ''Junio'', ''Julio'', ''Agosto'',
      ''Septiembre'', ''Octubre'', ''Noviembre'', ''Diciembre'']"

definition exampleMonthOf :: "nat \<Rightarrow> nat" where
  "exampleMonthOf createdDate = createdDate"

definition noVariantDeleted :: "string \<Rightarrow> bool" where
  "noVariantDeleted productVariantId = False"

definition variantBDeleted :: "string \<Rightarrow> bool" where
  "variantBDeleted productVariantId = (productVariantId = ''variant-B'')"

text \<open>
  A billing with a fixed discount of 50 on two lines of 200 and 100, and one with a
  fixed discount on a single line of nothing.
\<close>

definition exampleFixedBilling :: billing where
  "exampleFixedBilling =
     \<lparr> b_id = ''billing-1'', b_status = ''PAID'', b_discountType = Some ''FIXED'',
       b_discount = 50, b_subtotal = 300, b_shipping = 0, b_createdDate = 6 \<rparr>"

definition exampleFreeItem :: CreateBillingItemDto where
  "exampleFreeItem =
     \<lparr> bi_billingId = ''billing-2'', bi_productVariantId = ''variant-A'', bi_stockId = ''stock-1'',
       bi_name = ''A'', bi_quantity = 1, bi_price = 0, bi_totalPrice = 0,
       bi_currency = ''COP'', bi_createdDate = 6 \<rparr>"

definition exampleFreeBilling :: billing where
  "exampleFreeBilling =
     \<lparr> b_id = ''billing-2'', b_status = ''PAID'', b_discountType = Some ''FIXED'',
       b_discount = 50, b_subtotal = 0, b_shipping = 0, b_createdDate = 6 \<rparr>"

text \<open>A customer payload with the person id of no customer.\<close>

definition unknownPerson :: customer_data where
  "unknownPerson = \<lparr> cd_customerId = None, cd_fullName = None, cd_personId = Some ''person-9'' \<rparr>"

section \<open>Transactions: what a caller sees\<close>

lemma in_transaction_throws:
  "body (persisted db) = Throws e \<Longrightarrow> in_transaction body h db = (Inl (h e), db)"
  by (simp add: in_transaction_def)

lemma in_transaction_Inl:
  "fst (in_transaction body h db) = Inl e \<Longrightarrow> snd (in_transaction body h db) = db"
  by (auto simp: in_transaction_def split: body_result.splits)

lemma in_transaction_commit:
  "body (persisted db) = ReturnsAfterCommit r tx \<Longrightarrow>
   in_transaction body h db = (Inr r, db\<lparr>persisted := tx\<rparr>)"
  by (simp add: in_transaction_def)

lemma in_transaction_open:
  "body (persisted db) = ReturnsOpen r tx \<Longrightarrow>
   in_transaction body h db = (Inr r, db\<lparr>open_transactions := tx # open_transactions db\<rparr>)"
  by (simp add: in_transaction_def)

text \<open>
  A thrown error means a rollback: the database is as it was before the call, with no
  transaction left open.
\<close>

lemma create_throw_rolls_back:
  "fst (create svc dflt findShop quoteData customerData db) = Inl e \<Longrightarrow>
   snd (create svc dflt findShop quoteData customerData db) = db"
  unfolding create_def by (rule in_transaction_Inl)

lemma update_throw_rolls_back:
  "fst (update svc quoteData customerData db) = Inl e \<Longrightarrow>
   snd (update svc quoteData customerData db) = db"
  unfolding update_def by (rule in_transaction_Inl)

section \<open>Creation with an empty item list\<close>

text \<open>
  Claim C1. A create request whose item list is empty fails with the validation error
  of the source, a generic error with the message of line 188, whatever the
  collaborators would do; the database after the call is the database before it, so
  no quote row, line item or customer row persists and no transaction stays open.
\<close>

theorem create_empty_items_fails:
  assumes "dto_items quoteData = []"
  shows "create svc dflt findShop quoteData customerData db =
           (Inl (Error ''Es necesario al menos 1 item para crear una cotizacion'' None), db)"
  using assms by (simp add: create_def create_body_def in_transaction_def)

theorem create_empty_items_fails_witness:
  "dto_items (exampleQuoteData\<lparr>dto_items := []\<rparr>) = [] \<and>
   create specServices exampleDefaults exampleShops (exampleQuoteData\<lparr>dto_items := []\<rparr>)
     newCustomer exampleDb =
     (Inl (Error ''Es necesario al menos 1 item para crear una cotizacion'' None), exampleDb)"
  using create_empty_items_fails [of "exampleQuoteData\<lparr>dto_items := []\<rparr>" specServices
      exampleDefaults exampleShops newCustomer exampleDb]
  by simp

section \<open>What a successful call has done\<close>

lemma findByPk_Some: "findByPk pk qs = Some q \<Longrightarrow> q_id q = pk \<and> q \<in> set qs"
  by (auto simp: findByPk_def find_Some_iff)

lemma build_quote_rule: "discount_type_rule (build_quote dflt cid shp quoteData serial)"
  by (simp add: discount_type_rule_def build_quote_def)

lemma updated_quote_rule: "discount_type_rule (updated_quote quoteData customerData q)"
  by (simp add: discount_type_rule_def updated_quote_def)

lemma save_Inr: "save newQuote qs = Inr qs' \<Longrightarrow> qs' = qs @ [newQuote]"
  by (simp add: save_def split: if_splits)

lemma create_success:
  assumes "create svc dflt findShop quoteData customerData db = (Inr r, db')"
    and "r_status r = 201"
  shows "\<exists>cid c1 shp serial its.
           dto_items quoteData \<noteq> [] \<and>
           resolve_customer svc customerData (customers (persisted db)) = Inr (cid, c1) \<and>
           findShop (dto_shopSlug quoteData) = Some shp \<and>
           generateSerialNumber svc (quotes (persisted db)) = Inr serial \<and>
           create_items svc (new_id dflt) (dto_items quoteData) (quoteItems (persisted db)) =
             Inr its \<and>
           r_payload r = Some \<lparr> s_id = new_id dflt, s_serialNumber = serial,
               s_status = dto_status quoteData, s_customerId = cid,
               s_customerName = cd_fullName customerData, s_shopId = Some (shop_id shp),
               s_createdDate = new_createdDate dflt \<rparr> \<and>
           db' = db\<lparr>persisted :=
                   \<lparr> quotes = quotes (persisted db) @ [build_quote dflt cid shp quoteData serial],
                     quoteItems = its, customers = c1 \<rparr>\<rparr>"
  using assms
  by (auto simp: create_def in_transaction_def create_body_def Let_def build_quote_def
      dest!: save_Inr split: if_splits sum.splits option.splits prod.splits)

lemma update_success:
  assumes "update svc quoteData customerData db = (Inr r, db')"
  shows "\<exists>c1 q its.
           dto_items quoteData \<noteq> [] \<and>
           update_customer svc customerData (customers (persisted db)) = Inr c1 \<and>
           findByPk (dto_id quoteData) (quotes (persisted db)) = Some q \<and>
           quoteItemService_updateItems svc (dto_items quoteData) (dto_id quoteData)
             (quoteItems (persisted db)) = Inr its \<and>
           db' = db\<lparr>persisted :=
                   \<lparr> quotes = instance_update quoteData customerData q (quotes (persisted db)),
                     quoteItems = its, customers = c1 \<rparr>\<rparr>"
  using assms
  by (auto simp: update_def in_transaction_def update_body_def Let_def
      split: if_splits sum.splits option.splits prod.splits)

text \<open>The example requests, run.\<close>

lemma example_create_zero_discount:
  "create specServices exampleDefaults exampleShops (exampleQuoteData\<lparr>dto_discount := 0\<rparr>)
     noCustomer exampleDb =
   (Inr \<lparr> r_status = 201, r_message = None,
          r_payload = Some \<lparr> s_id = ''quote-2'', s_serialNumber = ''CTZ-0002'', s_status = PENDING,
            s_customerId = None, s_customerName = None, s_shopId = Some ''shop-1'',
            s_createdDate = 20250603 \<rparr> \<rparr>,
    exampleDb\<lparr>persisted :=
      \<lparr> quotes = [exampleQuote,
           \<lparr> q_id = ''quote-2'', q_serialNumber = ''CTZ-0002'', q_customerId = None,
             q_shopId = ''shop-1'', q_status = PENDING, q_currency = Some COP,
             q_discountType = None, q_discount = 0, q_shipping = 5,
             q_createdBy = ''user-1'', q_requestedBy = None, q_createdDate = 20250603 \<rparr>],
        quoteItems = [exampleItem\<lparr>qi_quoteId := Some ''quote-1''\<rparr>,
                      exampleItem\<lparr>qi_quoteId := Some ''quote-2''\<rparr>],
        customers = [''person-1''] \<rparr>\<rparr>)"
  by (simp add: create_def create_body_def in_transaction_def resolve_customer_def truthy_def
      specServices_def exampleQuoteData_def noCustomer_def exampleShops_def exampleDb_def
      exampleDefaults_def build_quote_def save_def exampleQuote_def exampleItem_def)

lemma example_update_zero_discount:
  "update specServices exampleUpdateData noCustomer exampleDb =
   (Inr \<lparr> r_status = 200, r_message = None,
          r_payload = Some \<lparr> s_id = ''quote-1'', s_serialNumber = ''CTZ-0001'', s_status = ACCEPTED,
            s_customerId = None, s_customerName = None, s_shopId = Some ''shop-1'',
            s_createdDate = 20250601 \<rparr> \<rparr>,
    exampleDb\<lparr>persisted :=
      \<lparr> quotes = [exampleQuote\<lparr> q_status := ACCEPTED, q_discountType := None, q_discount := 0,
                      q_shipping := 5, q_requestedBy := Some ''user-1'' \<rparr>],
        quoteItems = [exampleItem\<lparr>qi_quoteId := Some ''quote-1''\<rparr>],
        customers = [''person-1''] \<rparr>\<rparr>)"
  by (simp add: update_def update_body_def in_transaction_def update_customer_def truthy_def
      specServices_def exampleUpdateData_def noCustomer_def exampleDb_def findByPk_def
      instance_update_def updated_quote_def assigned_def exampleQuote_def exampleItem_def)

lemma example_create_new_customer:
  "create specServices exampleDefaults exampleShops exampleQuoteData newCustomer exampleDb =
   (Inr \<lparr> r_status = 201, r_message = None,
          r_payload = Some \<lparr> s_id = ''quote-2'', s_serialNumber = ''CTZ-0002'', s_status = PENDING,
            s_customerId = Some ''customer-new'', s_customerName = Some ''Ana'',
            s_shopId = Some ''shop-1'', s_createdDate = 20250603 \<rparr> \<rparr>,
    exampleDb\<lparr>persisted :=
      \<lparr> quotes = [exampleQuote,
           \<lparr> q_id = ''quote-2'', q_serialNumber = ''CTZ-0002'',
             q_customerId = Some ''customer-new'',
             q_shopId = ''shop-1'', q_status = PENDING, q_currency = Some COP,
             q_discountType = Some ''PERCENTAGE'', q_discount = 10, q_shipping = 5,
             q_createdBy = ''user-1'', q_requestedBy = None, q_createdDate = 20250603 \<rparr>],
        quoteItems = [exampleItem\<lparr>qi_quoteId := Some ''quote-1''\<rparr>,
                      exampleItem\<lparr>qi_quoteId := Some ''quote-2''\<rparr>],
        customers = [''person-1'', ''person-new''] \<rparr>\<rparr>)"
  by (simp add: create_def create_body_def in_transaction_def resolve_customer_def truthy_def
      specServices_def exampleQuoteData_def newCustomer_def exampleShops_def exampleDb_def
      exampleDefaults_def build_quote_def save_def exampleQuote_def exampleItem_def)

lemma example_create_known_person:
  "create specServices exampleDefaults exampleShops exampleQuoteData knownPerson exampleDb =
   (Inr \<lparr> r_status = 201, r_message = None,
          r_payload = Some \<lparr> s_id = ''quote-2'', s_serialNumber = ''CTZ-0002'', s_status = PENDING,
            s_customerId = None, s_customerName = None,
            s_shopId = Some ''shop-1'', s_createdDate = 20250603 \<rparr> \<rparr>,
    exampleDb\<lparr>persisted :=
      \<lparr> quotes = [exampleQuote,
           \<lparr> q_id = ''quote-2'', q_serialNumber = ''CTZ-0002'', q_customerId = None,
             q_shopId = ''shop-1'', q_status = PENDING, q_currency = Some COP,
             q_discountType = Some ''PERCENTAGE'', q_discount = 10, q_shipping = 5,
             q_createdBy = ''user-1'', q_requestedBy = None, q_createdDate = 20250603 \<rparr>],
        quoteItems = [exampleItem\<lparr>qi_quoteId := Some ''quote-1''\<rparr>,
                      exampleItem\<lparr>qi_quoteId := Some ''quote-2''\<rparr>],
        customers = [''person-1''] \<rparr>\<rparr>)"
  by (simp add: create_def create_body_def in_transaction_def resolve_customer_def truthy_def
      specServices_def exampleQuoteData_def knownPerson_def exampleShops_def exampleDb_def
      exampleDefaults_def build_quote_def save_def exampleQuote_def exampleItem_def)

section \<open>Rollback on failure\<close>

text \<open>
  Claim C3. Every failure of a step after the transaction is opened is to roll back
  the writes made so far before it reaches the caller. A thrown error does
  (\<open>create_throw_rolls_back\<close>, \<open>update_throw_rolls_back\<close>). The failure of the shop
  lookup in \<^verbatim>\<open>create\<close> does not throw: line 217 returns the 400 response from inside
  the \<^verbatim>\<open>try\<close> block, past both \<^verbatim>\<open>commit\<close> and \<^verbatim>\<open>rollback\<close>. For a request
  with a new customer and a slug that names no shop, the customer has been inserted
  in the transaction by then, and the call ends with that transaction open and the
  insert pending in it.
\<close>

theorem create_missing_shop_leaves_transaction_open:
  "create specServices exampleDefaults exampleShops
     (exampleQuoteData\<lparr>dto_shopSlug := Some ''norte''\<rparr>) newCustomer exampleDb =
   (Inr \<lparr> r_status = 400, r_message = Some ''Parece que la tienda no existe!'',
          r_payload = None \<rparr>,
    exampleDb\<lparr>open_transactions :=
      [(persisted exampleDb)\<lparr>customers := [''person-1'', ''person-new'']\<rparr>]\<rparr>)"
  by (simp add: create_def create_body_def in_transaction_def resolve_customer_def truthy_def
      specServices_def exampleQuoteData_def newCustomer_def exampleShops_def exampleDb_def)

section \<open>A shop that does not exist\<close>

text \<open>
  Claim C4, as stated: a create request whose slug names no shop fails with a
  not-found signal, a result equivalent to status 404. It does not: the example
  request, with items and without customer data, gets a returned response of status
  400.
\<close>

theorem create_missing_shop_counterexample:
  "fst (create specServices exampleDefaults exampleShops
          (exampleQuoteData\<lparr>dto_shopSlug := Some ''norte''\<rparr>) noCustomer exampleDb) =
   Inr \<lparr> r_status = 400, r_message = Some ''Parece que la tienda no existe!'',
         r_payload = None \<rparr>"
  by (simp add: create_def create_body_def in_transaction_def resolve_customer_def truthy_def
      specServices_def exampleQuoteData_def noCustomer_def exampleShops_def exampleDb_def)

text \<open>
  Claim C4, amended. When the slug of a create request names no shop, the persisted
  store after the call is the persisted store before it, so no quote row is created;
  and when the item list is not empty and the customer step has not thrown, the call
  returns the response of status 400 with the message of line 217.
\<close>

theorem create_missing_shop_returns_400:
  assumes "findShop (dto_shopSlug quoteData) = None"
  shows "persisted (snd (create svc dflt findShop quoteData customerData db)) = persisted db \<and>
         (\<forall>cid c1. dto_items quoteData \<noteq> [] \<longrightarrow>
            resolve_customer svc customerData (customers (persisted db)) = Inr (cid, c1) \<longrightarrow>
            fst (create svc dflt findShop quoteData customerData db) =
              Inr \<lparr> r_status = 400, r_message = Some ''Parece que la tienda no existe!'',
                     r_payload = None \<rparr>)"
  using assms
  by (auto simp: create_def in_transaction_def create_body_def
      split: sum.splits prod.splits)

theorem create_missing_shop_returns_400_witness:
  "exampleShops (dto_shopSlug (exampleQuoteData\<lparr>dto_shopSlug := Some ''norte''\<rparr>)) = None \<and>
   dto_items (exampleQuoteData\<lparr>dto_shopSlug := Some ''norte''\<rparr>) \<noteq> [] \<and>
   resolve_customer specServices newCustomer (customers (persisted exampleDb)) =
     Inr (Some ''customer-new'', [''person-1'', ''person-new'']) \<and>
   persisted (snd (create specServices exampleDefaults exampleShops
      (exampleQuoteData\<lparr>dto_shopSlug := Some ''norte''\<rparr>) newCustomer exampleDb)) =
     persisted exampleDb \<and>
   fst (create specServices exampleDefaults exampleShops
      (exampleQuoteData\<lparr>dto_shopSlug := Some ''norte''\<rparr>) newCustomer exampleDb) =
     Inr \<lparr> r_status = 400, r_message = Some ''Parece que la tienda no existe!'',
           r_payload = None \<rparr>"
  using create_missing_shop_returns_400 [of exampleShops
      "exampleQuoteData\<lparr>dto_shopSlug := Some ''norte''\<rparr>" specServices exampleDefaults
      newCustomer exampleDb]
  by (simp add: exampleShops_def exampleQuoteData_def resolve_customer_def truthy_def
      specServices_def newCustomer_def exampleDb_def)

section \<open>Uniqueness violations\<close>

lemma register_body_person_throws:
  "personModel_create models (u_fullName userData) (u_dni userData) tx = Inl e \<Longrightarrow>
   register_body models userData tx = Throws e"
  by (simp add: register_body_def)

lemma register_body_user_throws:
  "personModel_create models (u_fullName userData) (u_dni userData) tx =
     Inr (Some personId, tx1) \<Longrightarrow>
   userModel_create models userData personId tx1 = Inl e \<Longrightarrow>
   register_body models userData tx = Throws e"
  by (simp add: register_body_def)

text \<open>
  Claim C5, as stated: a creation of a document that fails on a uniqueness constraint
  of the store surfaces a duplicate-resource message distinct from the error of the
  database. For a quote it does not: when the serial number of the new quote is in
  use, \<^verbatim>\<open>create\<close> rethrows the error of the store as it came, message included.
\<close>

theorem create_unique_violation_counterexample:
  "create collidingServices exampleDefaults exampleShops exampleQuoteData noCustomer exampleDb =
     (Inl (Error ''Validation error'' (Some ''23505'')), exampleDb)"
  by (simp add: create_def create_body_def in_transaction_def resolve_customer_def truthy_def
      collidingServices_def specServices_def exampleQuoteData_def noCustomer_def exampleShops_def
      exampleDb_def save_def build_quote_def exampleQuote_def uniqueViolation_def)

text \<open>
  Claim C5, amended. \<^verbatim>\<open>UserService.register\<close> rolls back and rethrows what its body
  throws, after giving an error whose \<^verbatim>\<open>parent.code\<close> is 23505 the duplicate message
  of lines 121-122; an error with another code, or without one, and a thrown value
  that is no \<^verbatim>\<open>Error\<close> pass unchanged. \<^verbatim>\<open>QuoteService.create\<close> rolls back and
  rethrows every error unchanged, the uniqueness violation included.
\<close>

theorem unique_violation_translation:
  "(register_body models userData (persisted udb) = Throws e \<longrightarrow>
      register models userData udb = (Inl (register_on_catch e), udb)) \<and>
   register_on_catch (Error m (Some ''23505'')) =
      Error ''Ya existe un usuario con este email o numero de documento'' (Some ''23505'') \<and>
   (code \<noteq> Some ''23505'' \<longrightarrow> register_on_catch (Error m code) = Error m code) \<and>
   register_on_catch (NonError v) = NonError v \<and>
   (create_body svc dflt findShop quoteData customerData (persisted db) = Throws e' \<longrightarrow>
      create svc dflt findShop quoteData customerData db = (Inl e', db))"
  by (simp add: register_def create_def in_transaction_def register_on_catch_def)

theorem unique_violation_translation_witness:
  "register_body exampleUserModels exampleUser (persisted exampleUserDb) =
     Throws uniqueViolation \<and>
   register exampleUserModels exampleUser exampleUserDb =
     (Inl (Error ''Ya existe un usuario con este email o numero de documento'' (Some ''23505'')),
      exampleUserDb) \<and>
   Some ''22P02'' \<noteq> Some ''23505'' \<and>
   register_on_catch (Error ''invalid input syntax for type uuid'' (Some ''22P02'')) =
     Error ''invalid input syntax for type uuid'' (Some ''22P02'') \<and>
   create_body collidingServices exampleDefaults exampleShops exampleQuoteData noCustomer
     (persisted exampleDb) = Throws uniqueViolation \<and>
   create collidingServices exampleDefaults exampleShops exampleQuoteData noCustomer exampleDb =
     (Inl uniqueViolation, exampleDb)"
proof -
  have rb: "register_body exampleUserModels exampleUser (persisted exampleUserDb) =
      Throws uniqueViolation"
    by (simp add: register_body_def exampleUserModels_def exampleUser_def exampleUserDb_def)
  have cb: "create_body collidingServices exampleDefaults exampleShops exampleQuoteData noCustomer
     (persisted exampleDb) = Throws uniqueViolation"
    by (simp add: create_body_def resolve_customer_def truthy_def
      collidingServices_def specServices_def exampleQuoteData_def noCustomer_def exampleShops_def
      exampleDb_def save_def build_quote_def exampleQuote_def)
  show ?thesis
    using unique_violation_translation [of exampleUserModels exampleUser exampleUserDb
        uniqueViolation "''invalid input syntax for type uuid''" "Some ''22P02''" "''timeout''"
        collidingServices exampleDefaults exampleShops exampleQuoteData noCustomer exampleDb
        uniqueViolation]
    by (simp add: rb cb) (simp add: uniqueViolation_def register_on_catch_def)
qed

section \<open>The discount type\<close>

text \<open>
  Claim C6. After a successful create the persisted quote table is the table before
  with one new row, which has the discount of the request and satisfies the rule:
  its discount type is null unless its discount is positive. After a successful
  update the row of the request's id is there, has the discount of the request and
  satisfies the rule. Both operations, whatever their outcome, keep a table in which
  every row satisfies the rule in that state.
\<close>

theorem discount_type_null_without_discount:
  "(\<forall>r db'. create svc dflt findShop quoteData customerData db = (Inr r, db') \<longrightarrow>
      r_status r = 201 \<longrightarrow>
      (\<exists>row. quotes (persisted db') = quotes (persisted db) @ [row] \<and> q_id row = new_id dflt \<and>
             q_discount row = dto_discount quoteData \<and> discount_type_rule row)) \<and>
   (\<forall>r db'. update svc updateData customerData db = (Inr r, db') \<longrightarrow>
      dto_id updateData \<in> q_id ` set (quotes (persisted db')) \<and>
      (\<forall>row \<in> set (quotes (persisted db')). q_id row = dto_id updateData \<longrightarrow>
          q_discount row = dto_discount updateData \<and> discount_type_rule row)) \<and>
   (list_all discount_type_rule (quotes (persisted db)) \<longrightarrow>
      list_all discount_type_rule
        (quotes (persisted (snd (create svc dflt findShop quoteData customerData db)))) \<and>
      list_all discount_type_rule
        (quotes (persisted (snd (update svc updateData customerData db)))))"
proof (intro conjI allI impI)
  fix r db'
  assume "create svc dflt findShop quoteData customerData db = (Inr r, db')" "r_status r = 201"
  from create_success [OF this] obtain cid c1 shp serial its where
    "db' = db\<lparr>persisted :=
             \<lparr> quotes = quotes (persisted db) @ [build_quote dflt cid shp quoteData serial],
               quoteItems = its, customers = c1 \<rparr>\<rparr>"
    by blast
  then have "quotes (persisted db') =
      quotes (persisted db) @ [build_quote dflt cid shp quoteData serial]"
    by simp
  moreover have "q_id (build_quote dflt cid shp quoteData serial) = new_id dflt"
    and "q_discount (build_quote dflt cid shp quoteData serial) = dto_discount quoteData"
    by (simp_all add: build_quote_def)
  ultimately show
    "\<exists>row. quotes (persisted db') = quotes (persisted db) @ [row] \<and> q_id row = new_id dflt \<and>
             q_discount row = dto_discount quoteData \<and> discount_type_rule row"
    using build_quote_rule by blast
next
  fix r db'
  assume "update svc updateData customerData db = (Inr r, db')"
  from update_success [OF this] obtain c1 q its where
    q: "findByPk (dto_id updateData) (quotes (persisted db)) = Some q"
    and db': "quotes (persisted db') =
      instance_update updateData customerData q (quotes (persisted db))"
    by auto
  from q have qid: "q_id q = dto_id updateData" "q \<in> set (quotes (persisted db))"
    by (auto dest: findByPk_Some)
  have idpres: "q_id (updated_quote updateData customerData x) = q_id x" for x
    by (simp add: updated_quote_def)
  have "map q_id (instance_update updateData customerData q (quotes (persisted db))) =
        map q_id (quotes (persisted db))"
    by (simp add: instance_update_def idpres cong: if_cong)
  then have "q_id ` set (quotes (persisted db')) = q_id ` set (quotes (persisted db))"
    unfolding db' by (metis set_map)
  then show "dto_id updateData \<in> q_id ` set (quotes (persisted db'))"
    using qid by force
  show "\<forall>row \<in> set (quotes (persisted db')). q_id row = dto_id updateData \<longrightarrow>
          q_discount row = dto_discount updateData \<and> discount_type_rule row"
    using qid updated_quote_rule
    by (auto simp: db' instance_update_def idpres split: if_splits)
      (simp_all add: updated_quote_def)
next
  assume inv: "list_all discount_type_rule (quotes (persisted db))"
  show "list_all discount_type_rule
        (quotes (persisted (snd (create svc dflt findShop quoteData customerData db))))"
    using inv build_quote_rule
    by (auto simp: create_def in_transaction_def create_body_def Let_def dest!: save_Inr
        split: body_result.splits if_splits sum.splits option.splits prod.splits)
  show "list_all discount_type_rule
        (quotes (persisted (snd (update svc updateData customerData db))))"
    using inv updated_quote_rule
    by (auto simp: update_def in_transaction_def update_body_def Let_def instance_update_def
        list_all_iff split: body_result.splits if_splits sum.splits option.splits prod.splits)
qed

theorem discount_type_null_without_discount_witness:
  "r_status (projr (fst (create specServices exampleDefaults exampleShops
       (exampleQuoteData\<lparr>dto_discount := 0\<rparr>) noCustomer exampleDb))) = 201 \<and>
   list_all discount_type_rule (quotes (persisted exampleDb)) \<and>
   list_all discount_type_rule (quotes (persisted (snd (create specServices exampleDefaults
       exampleShops (exampleQuoteData\<lparr>dto_discount := 0\<rparr>) noCustomer exampleDb)))) \<and>
   list_all discount_type_rule (quotes (persisted (snd (update specServices exampleUpdateData
       noCustomer exampleDb)))) \<and>
   map q_discountType (quotes (persisted (snd (create specServices exampleDefaults
       exampleShops (exampleQuoteData\<lparr>dto_discount := 0\<rparr>) noCustomer exampleDb)))) =
     [Some ''PERCENTAGE'', None] \<and>
   map q_discountType (quotes (persisted (snd (update specServices exampleUpdateData
       noCustomer exampleDb)))) = [None]"
  using discount_type_null_without_discount [of specServices exampleDefaults exampleShops
      "exampleQuoteData\<lparr>dto_discount := 0\<rparr>" noCustomer exampleDb exampleUpdateData]
  unfolding example_create_zero_discount example_update_zero_discount
  by (simp add: discount_type_rule_def exampleDb_def exampleQuote_def)

section \<open>Update of a missing quote, update without items\<close>

text \<open>
  Claim C8, as stated: an update whose item list is empty fails with the validation
  error. Not when its id names no quote as well: the quote is looked up first (lines
  286-291), and the request gets the not-found error.
\<close>

theorem update_empty_items_missing_document_counterexample:
  "update specServices (exampleUpdateData\<lparr>dto_id := ''quote-9'', dto_items := []\<rparr>)
     noCustomer exampleDb =
     (Inl (Error ''Cotizacion no encontrada'' None), exampleDb)"
  by (simp add: update_def update_body_def in_transaction_def update_customer_def truthy_def
      exampleUpdateData_def noCustomer_def exampleDb_def findByPk_def exampleQuote_def)

text \<open>
  Claim C8, amended. An update whose id names no quote or whose item list is empty
  throws, and the database after the call is the database before it, so the stored
  quote and its items are unchanged. The error follows the order of the checks: the
  error of the customer step, if that step throws (lines 276-284); else, for an id
  that names no quote, the not-found error of line 290, whatever the item list; else,
  the quote being there and the list empty, the validation error of line 314.
\<close>

theorem update_failure_precedence:
  assumes "findByPk (dto_id quoteData) (quotes (persisted db)) = None \<or> dto_items quoteData = []"
  shows "update svc quoteData customerData db =
           (Inl (case update_customer svc customerData (customers (persisted db)) of
                   Inl e \<Rightarrow> e
                 | Inr c1 \<Rightarrow>
                     if findByPk (dto_id quoteData) (quotes (persisted db)) = None
                     then Error ''Cotizacion no encontrada'' None
                     else Error ''La cotizacion debe tener al menos 1 item'' None),
            db)"
  using assms
  by (auto simp: update_def in_transaction_def update_body_def Let_def
      split: sum.splits option.splits)

theorem update_failure_precedence_witness:
  "findByPk (dto_id (exampleUpdateData\<lparr>dto_id := ''quote-9''\<rparr>))
     (quotes (persisted exampleDb)) = None \<and>
   dto_items (exampleUpdateData\<lparr>dto_id := ''quote-9''\<rparr>) \<noteq> [] \<and>
   update specServices (exampleUpdateData\<lparr>dto_id := ''quote-9''\<rparr>) noCustomer exampleDb =
     (Inl (Error ''Cotizacion no encontrada'' None), exampleDb) \<and>
   findByPk (dto_id (exampleUpdateData\<lparr>dto_items := []\<rparr>))
     (quotes (persisted exampleDb)) = Some exampleQuote \<and>
   dto_items (exampleUpdateData\<lparr>dto_items := []\<rparr>) = [] \<and>
   update specServices (exampleUpdateData\<lparr>dto_items := []\<rparr>) noCustomer exampleDb =
     (Inl (Error ''La cotizacion debe tener al menos 1 item'' None), exampleDb) \<and>
   update_customer specServices unknownPerson (customers (persisted exampleDb)) =
     Inl (Error ''Cliente no encontrado'' None) \<and>
   update specServices (exampleUpdateData\<lparr>dto_items := []\<rparr>) unknownPerson exampleDb =
     (Inl (Error ''Cliente no encontrado'' None), exampleDb)"
  using update_failure_precedence [of "exampleUpdateData\<lparr>dto_id := ''quote-9''\<rparr>"
      exampleDb specServices noCustomer]
    update_failure_precedence [of "exampleUpdateData\<lparr>dto_items := []\<rparr>"
      exampleDb specServices noCustomer]
    update_failure_precedence [of "exampleUpdateData\<lparr>dto_items := []\<rparr>"
      exampleDb specServices unknownPerson]
  by (simp add: findByPk_def exampleDb_def exampleQuote_def exampleUpdateData_def
      update_customer_def noCustomer_def unknownPerson_def specServices_def truthy_def)

section \<open>The customer of a new quote\<close>

text \<open>
  Claim C10. After a successful create the new row and the summary carry the same
  customer id. When the customer data has a full name and no customer id, it is the
  id of the customer that the customer service has just created. In every other case
  it is the customer id of the request, null when there is none; then no customer is
  created, and a person id makes the customer service update the customer: with a
  person id alone the customer is updated and the customer id of the new quote is
  null.
\<close>

theorem create_customer_id:
  assumes "create svc dflt findShop quoteData customerData db = (Inr r, db')"
    and "r_status r = 201"
  shows "\<exists>row summary.
           quotes (persisted db') = quotes (persisted db) @ [row] \<and>
           r_payload r = Some summary \<and> s_customerId summary = q_customerId row \<and>
           (if truthy (cd_fullName customerData) \<and> \<not> truthy (cd_customerId customerData)
            then \<exists>newCustomerId.
                   customerService_create svc customerData (customers (persisted db)) =
                     Inr (newCustomerId, customers (persisted db')) \<and>
                   q_customerId row = Some newCustomerId
            else q_customerId row = cd_customerId customerData \<and>
                 (if truthy (cd_personId customerData)
                  then \<exists>customerInfo.
                         customerService_update svc customerData (customers (persisted db)) =
                           Inr (customerInfo, customers (persisted db'))
                  else customers (persisted db') = customers (persisted db)))"
proof -
  from create_success [OF assms] obtain cid c1 shp serial its where
    rc: "resolve_customer svc customerData (customers (persisted db)) = Inr (cid, c1)"
    and pay: "r_payload r = Some \<lparr> s_id = new_id dflt, s_serialNumber = serial,
               s_status = dto_status quoteData, s_customerId = cid,
               s_customerName = cd_fullName customerData, s_shopId = Some (shop_id shp),
               s_createdDate = new_createdDate dflt \<rparr>"
    and db': "db' = db\<lparr>persisted :=
                \<lparr> quotes = quotes (persisted db) @ [build_quote dflt cid shp quoteData serial],
                  quoteItems = its, customers = c1 \<rparr>\<rparr>"
    by blast
  have cidrow: "q_customerId (build_quote dflt cid shp quoteData serial) = cid"
    by (simp add: build_quote_def)
  show ?thesis
    apply (rule exI [of _ "build_quote dflt cid shp quoteData serial"])
    apply (rule exI [of _ "\<lparr> s_id = new_id dflt, s_serialNumber = serial,
               s_status = dto_status quoteData, s_customerId = cid,
               s_customerName = cd_fullName customerData, s_shopId = Some (shop_id shp),
               s_createdDate = new_createdDate dflt \<rparr>"])
    using rc
    by (auto simp: db' pay cidrow resolve_customer_def split: if_splits sum.splits prod.splits)
qed

theorem create_customer_id_witness:
  "truthy (cd_fullName newCustomer) \<and> \<not> truthy (cd_customerId newCustomer) \<and>
   map q_customerId (quotes (persisted (snd (create specServices exampleDefaults exampleShops
      exampleQuoteData newCustomer exampleDb)))) = [None, Some ''customer-new''] \<and>
   customerService_create specServices newCustomer (customers (persisted exampleDb)) =
      Inr (''customer-new'', [''person-1'', ''person-new'']) \<and>
   \<not> truthy (cd_fullName knownPerson) \<and> truthy (cd_personId knownPerson) \<and>
   map q_customerId (quotes (persisted (snd (create specServices exampleDefaults exampleShops
      exampleQuoteData knownPerson exampleDb)))) = [None, None] \<and>
   customerService_update specServices knownPerson (customers (persisted exampleDb)) =
      Inr (True, [''person-1''])"
  using create_customer_id [OF example_create_new_customer]
    create_customer_id [OF example_create_known_person]
  by (simp add: example_create_new_customer example_create_known_person)
    (simp add: truthy_def newCustomer_def knownPerson_def exampleDb_def exampleQuote_def
      specServices_def)

section \<open>Stock: sale and cancellation\<close>

lemma billingItem_create_succeeds_iff:
  "(\<exists>res. billingItem_create d True tx = Inr res) \<longleftrightarrow>
   stockItems tx (bi_productVariantId d, bi_stockId d) \<noteq> None"
  by (auto simp: billingItem_create_def updateQuantity_def Let_def split: option.splits)

lemma example_billing_create:
  "billingItem_create exampleBillingItem True exampleBillingStore =
     Inr (exampleBillingItem, exampleBillingStoreSold)"
  by (simp add: billingItem_create_def updateQuantity_def signed_def exampleBillingItem_def
      exampleBillingStore_def exampleBillingStoreSold_def Let_def)

text \<open>
  Claim C7. When a billing item is created with deduction, the stock item of its
  product variant and stock exists and loses exactly the quantity of the item, and
  the item is inserted; cancelling the item against the same stock then gives the
  stock table of before the creation.
\<close>

theorem cancel_after_create_restores_stock:
  assumes "billingItem_create d True tx = Inr (row, tx')"
  shows "(case stockItems tx (bi_productVariantId d, bi_stockId d) of
            None \<Rightarrow> False
          | Some si \<Rightarrow>
              stockItems tx' = (stockItems tx)((bi_productVariantId d, bi_stockId d) \<mapsto>
                si\<lparr>si_quantity := si_quantity si - bi_quantity d\<rparr>)) \<and>
         row = d \<and> billingItems tx' = billingItems tx @ [d] \<and>
         billingItem_cancel d (bi_stockId d) tx' = Inr (tx'\<lparr>stockItems := stockItems tx\<rparr>)"
proof -
  let ?k = "(bi_productVariantId d, bi_stockId d)"
  from assms obtain si where si: "stockItems tx ?k = Some si"
    by (auto simp: billingItem_create_def updateQuantity_def Let_def split: option.splits)
  with assms have tx': "tx' = tx\<lparr>billingItems := billingItems tx @ [d],
      stockItems := (stockItems tx)(?k \<mapsto> si\<lparr>si_quantity := si_quantity si - bi_quantity d\<rparr>)\<rparr>"
    and row: "row = d"
    by (auto simp: billingItem_create_def updateQuantity_def Let_def signed_def)
  have same: "(stockItems tx)(?k \<mapsto> si) = stockItems tx"
    using si by (simp add: map_upd_triv)
  have "billingItem_cancel d (bi_stockId d) tx' = Inr (tx'\<lparr>stockItems := stockItems tx\<rparr>)"
    by (simp add: billingItem_cancel_def updateQuantity_def signed_def tx' same)
  with si tx' row show ?thesis by simp
qed

theorem cancel_after_create_restores_stock_witness:
  "billingItem_create exampleBillingItem True exampleBillingStore =
     Inr (exampleBillingItem, exampleBillingStoreSold) \<and>
   billingItem_cancel exampleBillingItem ''stock-1'' exampleBillingStoreSold =
     Inr \<lparr> billingItems = [exampleBillingItem], stockItems = stockItems exampleBillingStore \<rparr>"
  using cancel_after_create_restores_stock [OF example_billing_create]
  by (simp add: example_billing_create)
    (simp add: exampleBillingItem_def exampleBillingStoreSold_def)

section \<open>Monthly sales and the total of a document\<close>

lemma sql_sum_Some:
  "sql_sum (map (\<lambda>i. Some (f i)) xs) = (if xs = [] then None else Some (sum_list (map f xs)))"
  by (induction xs) auto

lemma sql_sum_None: "sql_sum (map (\<lambda>i. None) xs) = None"
  by (induction xs) auto

lemma Number_sql_sum_append:
  "Number (sql_sum (xs @ ys)) = Number (sql_sum xs) + Number (sql_sum ys)"
proof (induction xs)
  case Nil
  then show ?case by (simp add: Number_def)
next
  case (Cons x xs)
  then show ?case by (cases x) (auto simp: Number_def split: option.splits)
qed

text \<open>
  Claim C2, as stated: the monthly aggregation applies to each document the rule of
  its total, the discounted sum of its line totals plus the shipping. It does not.
  For the billing of the spec's scenario, one item of 2 at 100, ten percent discount,
  shipping 5, the month's amount is 180 where the total is 185: the query adds no
  shipping. With a second line of 100 whose product variant is deleted, the amount
  is still 180 where the discounted sum of the line totals is 270: the query leaves
  such lines out. And for a fixed discount of 50 on these two lines, a subtotal of
  300 stored, the amount is 500/3, which is the discounted sum neither of all lines,
  250, nor of the joined line, 150: the query divides by the stored subtotal.
\<close>

theorem monthly_sales_counterexample:
  "getMonthlySales exampleMonthNames 1 12 exampleMonthOf noVariantDeleted
     [exampleBilling] [exampleBillingItem] =
     [\<lparr> sm_month = Some ''Junio'', sm_COP = 180, sm_USD = 0 \<rparr>] \<and>
   spec_total (spec_base [exampleBillingItem]) (b_discountType exampleBilling)
     (b_discount exampleBilling) (b_shipping exampleBilling) = 185 \<and>
   getMonthlySales exampleMonthNames 1 12 exampleMonthOf variantBDeleted
     [exampleBilling\<lparr>b_subtotal := 300\<rparr>] [exampleBillingItem, exampleBillingItemB] =
     [\<lparr> sm_month = Some ''Junio'', sm_COP = 180, sm_USD = 0 \<rparr>] \<and>
   spec_discounted (spec_base [exampleBillingItem, exampleBillingItemB])
     (b_discountType exampleBilling) (b_discount exampleBilling) = 270 \<and>
   getMonthlySales exampleMonthNames 1 12 exampleMonthOf variantBDeleted
     [exampleFixedBilling] [exampleBillingItem, exampleBillingItemB] =
     [\<lparr> sm_month = Some ''Junio'', sm_COP = 500 / 3, sm_USD = 0 \<rparr>] \<and>
   spec_discounted (spec_base [exampleBillingItem, exampleBillingItemB])
     (b_discountType exampleFixedBilling) (b_discount exampleFixedBilling) = 250 \<and>
   spec_discounted (spec_base [exampleBillingItem])
     (b_discountType exampleFixedBilling) (b_discount exampleFixedBilling) = 150"
  by (simp add: getMonthlySales_def formattedSales_def rawSales_def joined_rows_def
      group_key_def totalSales_def sale_term_def Number_def month_name_def
      exampleMonthNames_def exampleMonthOf_def noVariantDeleted_def variantBDeleted_def
      exampleBilling_def exampleFixedBilling_def exampleBillingItem_def exampleBillingItemB_def
      spec_total_def spec_discounted_def spec_base_def)

text \<open>
  Claim C2, amended. For the line items of a billing that the query joins, those
  whose product variant is not deleted, the amount they add to the sales of their
  group is the discounted sum of the spec, with the sum of their line totals as base
  and without shipping: \<open>base * (1 - discount / 100)\<close> for a percentage, \<open>base\<close> for
  a type that is neither percentage nor fixed, and, for a fixed discount, provided that
  the stored subtotal of the billing is that base, \<open>base * (1 - discount / base)\<close>, or
  \<open>base\<close> when the base is zero, where the query's NULL counts as nothing. The amount
  of a group is the sum of such amounts.
\<close>

theorem monthly_sales_discount_rule:
  assumes "b_discountType b = Some ''FIXED'' \<longrightarrow> b_subtotal b = spec_base its"
  shows "Number (totalSales (map (Pair b) its)) =
           spec_discounted (spec_base its) (b_discountType b) (b_discount b) \<and>
         Number (totalSales (map (Pair b) its @ rows)) =
           spec_discounted (spec_base its) (b_discountType b) (b_discount b) +
           Number (totalSales rows)"
proof -
  have one: "Number (totalSales (map (Pair b) its)) =
           spec_discounted (spec_base its) (b_discountType b) (b_discount b)"
  proof -
    consider (p) "b_discountType b = Some ''PERCENTAGE''"
      | (f0) "b_discountType b = Some ''FIXED''" "spec_base its = 0"
      | (f) "b_discountType b = Some ''FIXED''" "spec_base its \<noteq> 0"
      | (other) "b_discountType b \<noteq> Some ''PERCENTAGE''" "b_discountType b \<noteq> Some ''FIXED''"
      by blast
    then show ?thesis
    proof cases
      case p
      then show ?thesis
        by (simp add: totalSales_def sale_term_def o_def sql_sum_Some Number_def
            spec_discounted_def spec_base_def sum_list_mult_const)
    next
      case f0
      then show ?thesis using assms
        by (simp add: totalSales_def sale_term_def o_def sql_sum_None Number_def
            spec_discounted_def)
    next
      case f
      then show ?thesis using assms
        by (simp add: totalSales_def sale_term_def o_def sql_sum_Some Number_def
            spec_discounted_def spec_base_def sum_list_mult_const)
    next
      case other
      then show ?thesis
        by (simp add: totalSales_def sale_term_def o_def sql_sum_Some Number_def
            spec_discounted_def spec_base_def)
    qed
  qed
  have "Number (totalSales (map (Pair b) its @ rows)) =
        Number (totalSales (map (Pair b) its)) + Number (totalSales rows)"
    by (simp add: totalSales_def Number_sql_sum_append)
  with one show ?thesis by simp
qed

text \<open>
  The rule at work: a fixed discount on two lines, beside the line of another
  billing; a fixed discount on a base of zero; a percentage on the joined line of a
  billing whose stored subtotal counts a line that is left out.
\<close>

theorem monthly_sales_discount_rule_witness:
  "b_discountType exampleFixedBilling = Some ''FIXED'' \<and>
   b_subtotal exampleFixedBilling = spec_base [exampleBillingItem, exampleBillingItemB] \<and>
   Number (totalSales [(exampleFixedBilling, exampleBillingItem),
                       (exampleFixedBilling, exampleBillingItemB)]) = 250 \<and>
   Number (totalSales [(exampleFixedBilling, exampleBillingItem),
                       (exampleFixedBilling, exampleBillingItemB),
                       (exampleBilling, exampleBillingItem)]) = 250 + 180 \<and>
   b_discountType exampleFreeBilling = Some ''FIXED'' \<and>
   b_subtotal exampleFreeBilling = spec_base [exampleFreeItem] \<and>
   spec_base [exampleFreeItem] = 0 \<and>
   totalSales [(exampleFreeBilling, exampleFreeItem)] = None \<and>
   Number (totalSales [(exampleFreeBilling, exampleFreeItem)]) = 0 \<and>
   b_discountType (exampleBilling\<lparr>b_subtotal := 300\<rparr>) \<noteq> Some ''FIXED'' \<and>
   b_subtotal (exampleBilling\<lparr>b_subtotal := 300\<rparr>) \<noteq> spec_base [exampleBillingItem] \<and>
   Number (totalSales [(exampleBilling\<lparr>b_subtotal := 300\<rparr>, exampleBillingItem)]) = 180"
proof -
  have other: "Number (totalSales [(exampleBilling, exampleBillingItem)]) = 180"
    by (simp add: totalSales_def sale_term_def Number_def exampleBilling_def
        exampleBillingItem_def)
  have free: "totalSales [(exampleFreeBilling, exampleFreeItem)] = None"
    by (simp add: totalSales_def sale_term_def exampleFreeBilling_def)
  show ?thesis
    using monthly_sales_discount_rule [of exampleFixedBilling
        "[exampleBillingItem, exampleBillingItemB]" "[(exampleBilling, exampleBillingItem)]"]
      monthly_sales_discount_rule [of exampleFreeBilling "[exampleFreeItem]" "[]"]
      monthly_sales_discount_rule [of "exampleBilling\<lparr>b_subtotal := 300\<rparr>"
        "[exampleBillingItem]" "[]"]
    by (simp add: other free)
      (simp add: spec_base_def spec_discounted_def exampleFixedBilling_def
        exampleFreeBilling_def exampleBilling_def exampleBillingItem_def
        exampleBillingItemB_def exampleFreeItem_def)
qed

section \<open>Errors that do not reach the caller\<close>

lemma setPermissions_never_throws:
  "\<exists>r. fst (setPermissions models userId extraPermissions u) = Inr r"
  by (auto simp: setPermissions_def split: sum.splits bool.splits prod.splits option.splits)

lemma setPermissions_failure_is_500:
  "(userModel_findByPk models userId u = Inl e \<longrightarrow>
      fst (setPermissions models userId extraPermissions u) =
        Inr \<lparr> r_status = 500, r_message = Some ''Error asignando permisos de usuario'',
               r_payload = None \<rparr>) \<and>
   (userModel_findByPk models userId u = Inr True \<longrightarrow>
    fst (setExtraPermissions models userId extraPermissions u) = Some e \<longrightarrow>
      fst (setPermissions models userId extraPermissions u) =
        Inr \<lparr> r_status = 500, r_message = Some ''Error asignando permisos de usuario'',
               r_payload = None \<rparr>)"
  by (auto simp: setPermissions_def split: sum.splits bool.splits prod.splits option.splits)

lemma controller_create_forwards: "controller_create (Inl e) = Forwarded e"
  by (simp add: controller_create_def)

lemma getRoleName_rethrows:
  "roleModel_findByPk models roleId = Inl e \<Longrightarrow> getRoleName models roleId = Inl e"
  by (simp add: getRoleName_def)

lemma billingItem_cancel_rethrows:
  "updateQuantity (d\<lparr>bi_stockId := stockId\<rparr>) ADD (stockItems tx) = Inl e \<Longrightarrow>
   billingItem_cancel d stockId tx = Inl e"
  by (simp add: billingItem_cancel_def)

text \<open>
  Claim C9. \<^verbatim>\<open>setPermissions\<close> is to be the one place where an error does not go on
  to the caller: it never throws, and a failure of either of its steps gives the
  response of status 500 (\<open>setPermissions_never_throws\<close>,
  \<open>setPermissions_failure_is_500\<close>). The handler of the ping route is a second one:
  when \<^verbatim>\<open>authenticate\<close> throws, it logs the error, sends no response and hands
  nothing to the error middleware, where the handlers of the controller forward the
  error of their service.
\<close>

theorem ping_swallows_error:
  "ping (Some (Error ''connect ECONNREFUSED'' None)) = NoResponse \<and>
   controller_create (Inl (Error ''connect ECONNREFUSED'' None) :: error + string) =
     Forwarded (Error ''connect ECONNREFUSED'' None)"
  by (simp add: ping_def controller_create_def)

end
